theory Spec2Isabelle
  imports Complex_Main "HOL-Library.AList" "HOL-Library.Sublist" "HOL-Library.List_Lexorder"
    "HOL-Library.Char_ord"
begin

section \<open>Data model of the CTA strategy engine\<close>

text \<open>
  The embedding follows \<^verbatim>\<open>src/vnpy_ctastrategy/engine.py\<close> (class \<^verbatim>\<open>CtaEngine\<close>) and
  \<^verbatim>\<open>src/vnpy_ctastrategy/base.py\<close>.  Python floats are modelled as \<^typ>\<open>real\<close> (the
  engine only compares, adds and subtracts them; NaN, infinities and rounding are outside
  the model).  Python objects with identity (strategy instances) live in an explicit store
  addressed by natural numbers, because several indexes of the engine alias them.
\<close>

subsection \<open>Constants of the trading library\<close>

datatype Direction = LONG | SHORT | NET

datatype Offset = OFFSET_NONE | OPEN | CLOSE | CLOSETODAY | CLOSEYESTERDAY

datatype Status = SUBMITTING | NOTTRADED | PARTTRADED | ALLTRADED | CANCELLED | REJECTED

datatype OrderType = LIMIT | MARKET | STOP | FAK | FOK | RFQ | ETF

text \<open>\<^verbatim>\<open>base.py\<close>: \<^verbatim>\<open>class StopOrderStatus(Enum)\<close>, \<^verbatim>\<open>APP_NAME\<close>, \<^verbatim>\<open>STOPORDER_PREFIX\<close>.\<close>

datatype StopOrderStatus = WAITING | STOP_CANCELLED | TRIGGERED

definition APP_NAME :: string where
  "APP_NAME = ''CtaStrategy''"

definition STOPORDER_PREFIX :: string where
  "STOPORDER_PREFIX = ''STOP''"

text \<open>\<^verbatim>\<open>STOP_STATUS_MAP\<close> of \<^verbatim>\<open>engine.py\<close>.\<close>

fun STOP_STATUS_MAP :: "Status \<Rightarrow> StopOrderStatus" where
  "STOP_STATUS_MAP SUBMITTING = WAITING"
| "STOP_STATUS_MAP NOTTRADED = WAITING"
| "STOP_STATUS_MAP PARTTRADED = TRIGGERED"
| "STOP_STATUS_MAP ALLTRADED = TRIGGERED"
| "STOP_STATUS_MAP CANCELLED = STOP_CANCELLED"
| "STOP_STATUS_MAP REJECTED = STOP_CANCELLED"

subsection \<open>Python values and helpers\<close>

datatype PyVal = PyNone | PyBool bool | PyNum real | PyStr string

datatype PyError = KeyError | ValueError | AttributeError

text \<open>\<^verbatim>\<open>str.split(sep)\<close> for a one-character separator, and \<^verbatim>\<open>str.startswith\<close>.\<close>

fun split_on :: "char \<Rightarrow> string \<Rightarrow> string list" where
  "split_on c [] = [[]]"
| "split_on c (x # xs) =
     (if x = c then [] # split_on c xs
      else (case split_on c xs of
              [] \<Rightarrow> [[x]]
            | w # ws \<Rightarrow> (x # w) # ws))"

definition startswith :: "string \<Rightarrow> string \<Rightarrow> bool" where
  "startswith s p = (take (length p) s = p)"

text \<open>\<^verbatim>\<open>str(n)\<close> for the stop-order counter (decimal digits).\<close>

definition digit_char :: "nat \<Rightarrow> char" where
  "digit_char d = ''0123456789'' ! d"

function str_nat :: "nat \<Rightarrow> string" where
  "str_nat n = (if n < 10 then [digit_char n] else str_nat (n div 10) @ [digit_char (n mod 10)])"
  by pat_completeness auto
termination
  by (relation "measure id") auto

declare str_nat.simps [simp del]

definition str_int :: "int \<Rightarrow> string" where
  "str_int i = (if i < 0 then CHR ''-'' # str_nat (nat (- i)) else str_nat (nat i))"

text \<open>Truthiness of an optional float (\<^verbatim>\<open>if tick.limit_up:\<close>): \<^verbatim>\<open>None\<close> and \<^verbatim>\<open>0\<close> are false.\<close>

fun truthy_price :: "real option \<Rightarrow> bool" where
  "truthy_price None = False"
| "truthy_price (Some x) = (x \<noteq> 0)"

subsection \<open>Data objects\<close>

record TickData =
  tick_vt_symbol :: string
  last_price :: real
  limit_up :: "real option"
  limit_down :: "real option"
  ask_price_5 :: real
  bid_price_5 :: real

record OrderData =
  order_vt_orderid :: string
  order_vt_symbol :: string
  order_direction :: Direction
  order_offset :: Offset
  order_type :: OrderType
  order_price :: real
  order_volume :: real
  order_status :: Status
  order_datetime :: nat
  order_gateway_name :: string

record TradeData =
  trade_vt_tradeid :: string
  trade_vt_orderid :: string
  trade_direction :: Direction
  trade_volume :: real

record ContractData =
  contract_symbol :: string
  contract_exchange :: string
  contract_gateway_name :: string
  contract_pricetick :: real
  contract_min_volume :: real
  contract_stop_supported :: bool

record OrderRequest =
  req_symbol :: string
  req_exchange :: string
  req_direction :: Direction
  req_offset :: Offset
  req_type :: OrderType
  req_price :: real
  req_volume :: real
  req_reference :: string

text \<open>\<^verbatim>\<open>base.py\<close>: \<^verbatim>\<open>@dataclass class StopOrder\<close>.  Stop orders are modelled as values: the
  engine writes \<^verbatim>\<open>status\<close> and \<^verbatim>\<open>vt_orderids\<close> of a stop order only after it has taken the
  order out of the registry, and hands the updated order to the callback and to the
  notification.\<close>

record StopOrder =
  so_vt_symbol :: string
  so_direction :: Direction
  so_offset :: Offset
  so_price :: real
  so_volume :: real
  stop_orderid :: string
  so_strategy_name :: string
  so_datetime :: nat
  so_lock :: bool
  so_net :: bool
  so_vt_orderids :: "string list"
  so_status :: StopOrderStatus

text \<open>\<^verbatim>\<open>OrderData.is_active\<close> of the trading library: the active statuses.\<close>

definition is_active :: "OrderData \<Rightarrow> bool" where
  "is_active order = (order_status order \<in> {SUBMITTING, NOTTRADED, PARTTRADED})"

text \<open>
  A strategy instance (\<^verbatim>\<open>CtaTemplate\<close>, whose module is not part of the sources): the
  attributes the engine reads and writes.  \<^verbatim>\<open>user_vars\<close> holds the declared variables
  other than \<^verbatim>\<open>inited\<close>, \<^verbatim>\<open>trading\<close> and \<^verbatim>\<open>pos\<close>; \<^verbatim>\<open>params\<close> the setting.
\<close>

record Strategy =
  strategy_name :: string
  vt_symbol :: string
  class_name :: string
  inited :: bool
  trading :: bool
  pos :: real
  user_vars :: "string \<rightharpoonup> PyVal"
  params :: "string \<rightharpoonup> PyVal"

text \<open>What \<^verbatim>\<open>sync_strategy_data\<close> keeps of \<^verbatim>\<open>get_variables()\<close> once \<^verbatim>\<open>inited\<close> and
  \<^verbatim>\<open>trading\<close> are popped: the position and the other declared variables.  The two flags
  are never part of the stored data.\<close>

record VarData =
  data_pos :: "PyVal"
  data_vars :: "string \<rightharpoonup> PyVal"

record SettingEntry =
  setting_class_name :: string
  setting_vt_symbol :: string
  setting_dict :: "string \<rightharpoonup> PyVal"

subsection \<open>Notifications and calls to the main engine\<close>

text \<open>
  Log texts are entries of the translation catalogue (\<^verbatim>\<open>_("...")\<close>) with arguments
  substituted by \<^verbatim>\<open>format\<close>; the model keeps the entry's key and the arguments.
\<close>

datatype MsgId =
    MSG_EXCEPTION_STOPPED
  | MSG_ADD_DUPLICATE_NAME
  | MSG_ADD_CLASS_NOT_FOUND
  | MSG_ADD_MISSING_EXCHANGE
  | MSG_ADD_BAD_EXCHANGE
  | MSG_ALREADY_INITED
  | MSG_INIT_BEGIN
  | MSG_SUBSCRIBE_NO_CONTRACT
  | MSG_INIT_DONE
  | MSG_START_NOT_INITED
  | MSG_ALREADY_STARTED
  | MSG_REMOVE_TRADING
  | MSG_REMOVE_DONE
  | MSG_ORDER_NO_CONTRACT
  | MSG_CANCEL_NO_ORDER

record LogData =
  log_strategy :: "string option"
  log_msg :: MsgId
  log_args :: "string list"

datatype Event =
    EVENT_CTA_LOG LogData
  | EVENT_CTA_STOPORDER StopOrder
  | EVENT_CTA_STRATEGY Strategy

datatype MainCall =
    ConvertOrderRequest OrderRequest string bool bool
  | SendOrder OrderRequest string
  | UpdateOrderRequest OrderRequest string string
  | CancelOrder OrderData string
  | Subscribe string string string

subsection \<open>Engine state\<close>

text \<open>
  The attributes of \<^verbatim>\<open>CtaEngine.__init__\<close>.  \<^verbatim>\<open>heap\<close> and \<^verbatim>\<open>next_obj\<close> are the store of
  strategy instances; \<^verbatim>\<open>setting_file\<close> and \<^verbatim>\<open>data_file\<close> are what \<^verbatim>\<open>save_json\<close> last wrote;
  \<^verbatim>\<open>events\<close> is what was put on the event engine and \<^verbatim>\<open>main_calls\<close> what was asked of the
  main engine, both in order.  The two \<^verbatim>\<open>defaultdict\<close>s are maps whose domain is the set
  of keys present: reading a missing key inserts the default.  \<^verbatim>\<open>stop_orders\<close> is iterated,
  hence an association list in insertion order.
\<close>

record Engine =
  strategy_setting :: "string \<rightharpoonup> SettingEntry"
  strategy_data :: "string \<rightharpoonup> VarData"
  classes :: "string \<rightharpoonup> string"
  strategies :: "string \<rightharpoonup> nat"
  symbol_strategy_map :: "string \<rightharpoonup> nat list"
  orderid_strategy_map :: "string \<rightharpoonup> nat"
  strategy_orderid_map :: "string \<rightharpoonup> string set"
  stop_order_count :: int
  stop_orders :: "(string \<times> StopOrder) list"
  vt_tradeids :: "string set"
  heap :: "nat \<Rightarrow> Strategy"
  next_obj :: nat
  setting_file :: "string \<rightharpoonup> SettingEntry"
  data_file :: "string \<rightharpoonup> VarData"
  events :: "Event list"
  main_calls :: "MainCall list"

subsection \<open>Strategy callbacks and external collaborators\<close>

text \<open>
  A strategy callback is code outside the engine that runs with access to it: a function
  of the engine state that either returns or raises an \<^verbatim>\<open>Exception\<close> (with its
  traceback text), in both cases leaving some engine state behind.  Exceptions that are
  not subclasses of \<^verbatim>\<open>Exception\<close> (interrupts, interpreter exit) are outside the model.
\<close>

datatype CbResult = Returned Engine | Raised string Engine

datatype Params =
    NoParams
  | TickParams TickData
  | OrderParams OrderData
  | TradeParams TradeData
  | StopOrderParams StopOrder

type_synonym Callback = "Params \<Rightarrow> Engine \<Rightarrow> CbResult"

record Callbacks =
  on_init :: "nat \<Rightarrow> Callback"
  on_start :: "nat \<Rightarrow> Callback"
  on_stop :: "nat \<Rightarrow> Callback"
  on_tick :: "nat \<Rightarrow> Callback"
  on_order :: "nat \<Rightarrow> Callback"
  on_trade :: "nat \<Rightarrow> Callback"
  on_stop_order :: "nat \<Rightarrow> Callback"

text \<open>
  The collaborators the engine calls: the main engine and gateway (answers may depend on
  everything that happened so far, hence on the state), the \<^verbatim>\<open>Exchange\<close> enumeration,
  \<^verbatim>\<open>round_to\<close>, the clock, the order in which Python iterates a set (\<^verbatim>\<open>iter_set\<close>, a list
  of the set's elements), and the loaded strategy classes (declared variables with their
  defaults, callbacks) by class name.
\<close>

record Env =
  exchange_members :: "string set"
  get_contract :: "Engine \<Rightarrow> string \<Rightarrow> ContractData option"
  get_order :: "Engine \<Rightarrow> string \<Rightarrow> OrderData option"
  convert_order_request :: "Engine \<Rightarrow> OrderRequest \<Rightarrow> string \<Rightarrow> bool \<Rightarrow> bool \<Rightarrow> OrderRequest list"
  main_send_order :: "Engine \<Rightarrow> OrderRequest \<Rightarrow> string \<Rightarrow> string"
  round_to :: "real \<Rightarrow> real \<Rightarrow> real"
  now :: "Engine \<Rightarrow> nat"
  iter_set :: "string set \<Rightarrow> string list"
  class_variables :: "string \<Rightarrow> (string \<rightharpoonup> PyVal)"
  behaviour :: "string \<Rightarrow> Callbacks"

text \<open>The bound method \<^verbatim>\<open>strategy.on_xxx\<close>: looked up in the instance's class.\<close>

definition bound :: "Env \<Rightarrow> (Callbacks \<Rightarrow> nat \<Rightarrow> Callback) \<Rightarrow> nat \<Rightarrow> Engine \<Rightarrow> Callback" where
  "bound env sel p e = sel (behaviour env (class_name (heap e p))) p"

type_synonym 'a Exec = "(PyError \<times> Engine) + ('a \<times> Engine)"

section \<open>Operations of the engine\<close>

subsection \<open>Notifications\<close>

definition put_event :: "Event \<Rightarrow> Engine \<Rightarrow> Engine" where
  "put_event ev e = e\<lparr>events := events e @ [ev]\<rparr>"

definition write_log :: "MsgId \<Rightarrow> string list \<Rightarrow> nat option \<Rightarrow> Engine \<Rightarrow> Engine" where
  "write_log msg args strategy e =
     put_event (EVENT_CTA_LOG \<lparr>log_strategy = map_option (\<lambda>p. strategy_name (heap e p)) strategy,
                              log_msg = msg, log_args = args\<rparr>) e"

definition put_stop_order_event :: "StopOrder \<Rightarrow> Engine \<Rightarrow> Engine" where
  "put_stop_order_event stop_order e = put_event (EVENT_CTA_STOPORDER stop_order) e"

definition put_strategy_event :: "nat \<Rightarrow> Engine \<Rightarrow> Engine" where
  "put_strategy_event p e = put_event (EVENT_CTA_STRATEGY (heap e p)) e"

subsection \<open>The call guard\<close>

definition set_strategy :: "nat \<Rightarrow> (Strategy \<Rightarrow> Strategy) \<Rightarrow> Engine \<Rightarrow> Engine" where
  "set_strategy p f e = e\<lparr>heap := (heap e)(p := f (heap e p))\<rparr>"

text \<open>\<^verbatim>\<open>call_strategy_func\<close>: \<^verbatim>\<open>if params: func(params) else: func()\<close> inside
  \<^verbatim>\<open>try ... except Exception\<close>.  Every data object passed as \<^verbatim>\<open>params\<close> is truthy.\<close>

definition call_strategy_func :: "nat \<Rightarrow> Callback \<Rightarrow> Params \<Rightarrow> Engine \<Rightarrow> Engine" where
  "call_strategy_func p func prm e =
     (case (if prm \<noteq> NoParams then func prm e else func NoParams e) of
        Returned e' \<Rightarrow> e'
      | Raised tb e' \<Rightarrow>
          write_log MSG_EXCEPTION_STOPPED [tb] (Some p)
            (set_strategy p (\<lambda>s. s\<lparr>trading := False, inited := False\<rparr>) e'))"

subsection \<open>Persistence of strategy variables\<close>

text \<open>\<^verbatim>\<open>get_variables()\<close> is a method of the template; \<^verbatim>\<open>sync_strategy_data\<close> pops the two
  flags from its result, stores the rest under the strategy's name and saves the file.\<close>

definition get_variables :: "Strategy \<Rightarrow> VarData" where
  "get_variables s = \<lparr>data_pos = PyNum (pos s), data_vars = user_vars s\<rparr>"

definition sync_strategy_data :: "nat \<Rightarrow> Engine \<Rightarrow> Engine" where
  "sync_strategy_data p e =
     (let d = get_variables (heap e p);
          sd = (strategy_data e)(strategy_name (heap e p) \<mapsto> d)
      in e\<lparr>strategy_data := sd, data_file := sd\<rparr>)"

subsection \<open>Trade events\<close>

definition process_trade_event :: "Env \<Rightarrow> TradeData \<Rightarrow> Engine \<Rightarrow> Engine" where
  "process_trade_event env trade e =
     (if trade_vt_tradeid trade \<in> vt_tradeids e then e
      else
        let e1 = e\<lparr>vt_tradeids := insert (trade_vt_tradeid trade) (vt_tradeids e)\<rparr> in
        (case orderid_strategy_map e1 (trade_vt_orderid trade) of
           None \<Rightarrow> e1
         | Some p \<Rightarrow>
             let e2 = (if trade_direction trade = LONG
                       then set_strategy p (\<lambda>s. s\<lparr>pos := pos s + trade_volume trade\<rparr>) e1
                       else set_strategy p (\<lambda>s. s\<lparr>pos := pos s - trade_volume trade\<rparr>) e1);
                 e3 = call_strategy_func p (bound env on_trade p e2) (TradeParams trade) e2;
                 e4 = sync_strategy_data p e3
             in put_strategy_event p e4))"

subsection \<open>The two defaultdicts\<close>

text \<open>\<^verbatim>\<open>self.strategy_orderid_map[name]\<close> and \<^verbatim>\<open>self.symbol_strategy_map[vt_symbol]\<close>: a read
  of a missing key stores the default (an empty set, an empty list) under it.\<close>

definition touch_orderids :: "string \<Rightarrow> Engine \<Rightarrow> Engine" where
  "touch_orderids name e =
     (if name \<in> dom (strategy_orderid_map e) then e
      else e\<lparr>strategy_orderid_map := (strategy_orderid_map e)(name \<mapsto> {})\<rparr>)"

definition orderids_of :: "Engine \<Rightarrow> string \<Rightarrow> string set" where
  "orderids_of e name = (case strategy_orderid_map e name of None \<Rightarrow> {} | Some ids \<Rightarrow> ids)"

definition touch_symbol :: "string \<Rightarrow> Engine \<Rightarrow> Engine" where
  "touch_symbol symb e =
     (if symb \<in> dom (symbol_strategy_map e) then e
      else e\<lparr>symbol_strategy_map := (symbol_strategy_map e)(symb \<mapsto> [])\<rparr>)"

definition strategies_of :: "Engine \<Rightarrow> string \<Rightarrow> nat list" where
  "strategies_of e symb = (case symbol_strategy_map e symb of None \<Rightarrow> [] | Some ps \<Rightarrow> ps)"

text \<open>\<^verbatim>\<open>self.strategy_orderid_map[name].add(vt_orderid)\<close> and the guarded
  \<^verbatim>\<open>vt_orderids = self.strategy_orderid_map[name]; if x in vt_orderids: vt_orderids.remove(x)\<close>.\<close>

definition add_orderid :: "string \<Rightarrow> string \<Rightarrow> Engine \<Rightarrow> Engine" where
  "add_orderid name vt_orderid e =
     e\<lparr>strategy_orderid_map := (strategy_orderid_map e)(name \<mapsto> insert vt_orderid (orderids_of e name))\<rparr>"

definition discard_orderid :: "string \<Rightarrow> string \<Rightarrow> Engine \<Rightarrow> Engine" where
  "discard_orderid name vt_orderid e =
     (let e1 = touch_orderids name e in
      if vt_orderid \<in> orderids_of e1 name
      then e1\<lparr>strategy_orderid_map := (strategy_orderid_map e1)(name \<mapsto> orderids_of e1 name - {vt_orderid})\<rparr>
      else e1)"

subsection \<open>Sending orders\<close>

definition call_main :: "MainCall \<Rightarrow> Engine \<Rightarrow> Engine" where
  "call_main c e = e\<lparr>main_calls := main_calls e @ [c]\<rparr>"

text \<open>The loop of \<^verbatim>\<open>send_server_order\<close> over \<^verbatim>\<open>req_list\<close>; \<^verbatim>\<open>acc\<close> is \<^verbatim>\<open>vt_orderids\<close>.\<close>

fun send_requests :: "Env \<Rightarrow> nat \<Rightarrow> string \<Rightarrow> OrderRequest list \<Rightarrow> string list \<Rightarrow> Engine
    \<Rightarrow> string list \<times> Engine" where
  "send_requests env p gateway [] acc e = (acc, e)"
| "send_requests env p gateway (req # reqs) acc e =
     (let vt_orderid = main_send_order env e req gateway;
          e1 = call_main (SendOrder req gateway) e
      in if vt_orderid = [] then send_requests env p gateway reqs acc e1
         else
           let e2 = call_main (UpdateOrderRequest req vt_orderid gateway) e1;
               e3 = e2\<lparr>orderid_strategy_map := (orderid_strategy_map e2)(vt_orderid \<mapsto> p)\<rparr>;
               e4 = add_orderid (strategy_name (heap e3 p)) vt_orderid e3
           in send_requests env p gateway reqs (acc @ [vt_orderid]) e4)"

text \<open>\<^verbatim>\<open>send_server_order\<close>.  \<^verbatim>\<open>check_stop_order\<close> passes the result of \<^verbatim>\<open>get_contract\<close>
  unchecked, so the contract may be \<^verbatim>\<open>None\<close>: reading \<^verbatim>\<open>contract.symbol\<close> then raises.\<close>

definition send_server_order :: "Env \<Rightarrow> nat \<Rightarrow> ContractData option \<Rightarrow> Direction \<Rightarrow> Offset \<Rightarrow> real
    \<Rightarrow> real \<Rightarrow> OrderType \<Rightarrow> bool \<Rightarrow> bool \<Rightarrow> Engine \<Rightarrow> (string list) Exec" where
  "send_server_order env p contract direction offset price volume otype lock net e =
     (case contract of
        None \<Rightarrow> Inl (AttributeError, e)
      | Some c \<Rightarrow>
          let original_req = \<lparr>req_symbol = contract_symbol c, req_exchange = contract_exchange c,
                req_direction = direction, req_offset = offset, req_type = otype,
                req_price = price, req_volume = volume,
                req_reference = APP_NAME @ ''_'' @ strategy_name (heap e p)\<rparr>;
              req_list = convert_order_request env e original_req (contract_gateway_name c) lock net;
              e1 = call_main (ConvertOrderRequest original_req (contract_gateway_name c) lock net) e
          in Inr (send_requests env p (contract_gateway_name c) req_list [] e1))"

definition send_limit_order :: "Env \<Rightarrow> nat \<Rightarrow> ContractData option \<Rightarrow> Direction \<Rightarrow> Offset \<Rightarrow> real
    \<Rightarrow> real \<Rightarrow> bool \<Rightarrow> bool \<Rightarrow> Engine \<Rightarrow> (string list) Exec" where
  "send_limit_order env p contract direction offset price volume lock net e =
     send_server_order env p contract direction offset price volume LIMIT lock net e"

definition send_server_stop_order :: "Env \<Rightarrow> nat \<Rightarrow> ContractData option \<Rightarrow> Direction \<Rightarrow> Offset
    \<Rightarrow> real \<Rightarrow> real \<Rightarrow> bool \<Rightarrow> bool \<Rightarrow> Engine \<Rightarrow> (string list) Exec" where
  "send_server_stop_order env p contract direction offset price volume lock net e =
     send_server_order env p contract direction offset price volume STOP lock net e"

definition send_local_stop_order :: "Env \<Rightarrow> nat \<Rightarrow> Direction \<Rightarrow> Offset \<Rightarrow> real \<Rightarrow> real \<Rightarrow> bool
    \<Rightarrow> bool \<Rightarrow> Engine \<Rightarrow> string list \<times> Engine" where
  "send_local_stop_order env p direction offset price volume lock net e =
     (let e1 = e\<lparr>stop_order_count := stop_order_count e + 1\<rparr>;
          sid = STOPORDER_PREFIX @ ''.'' @ str_int (stop_order_count e1);
          stop_order = \<lparr>so_vt_symbol = vt_symbol (heap e1 p), so_direction = direction,
            so_offset = offset, so_price = price, so_volume = volume, stop_orderid = sid,
            so_strategy_name = strategy_name (heap e1 p), so_datetime = now env e1,
            so_lock = lock, so_net = net, so_vt_orderids = [], so_status = WAITING\<rparr>;
          e2 = e1\<lparr>stop_orders := AList.update sid stop_order (stop_orders e1)\<rparr>;
          e3 = add_orderid (strategy_name (heap e2 p)) sid e2;
          e4 = call_strategy_func p (bound env on_stop_order p e3) (StopOrderParams stop_order) e3;
          e5 = put_stop_order_event stop_order e4
      in ([sid], e5))"

definition send_order :: "Env \<Rightarrow> nat \<Rightarrow> Direction \<Rightarrow> Offset \<Rightarrow> real \<Rightarrow> real \<Rightarrow> bool \<Rightarrow> bool \<Rightarrow> bool
    \<Rightarrow> Engine \<Rightarrow> (string list) Exec" where
  "send_order env p direction offset price volume stop lock net e =
     (case get_contract env e (vt_symbol (heap e p)) of
        None \<Rightarrow> Inr ([], write_log MSG_ORDER_NO_CONTRACT [vt_symbol (heap e p)] (Some p) e)
      | Some c \<Rightarrow>
          let price' = round_to env price (contract_pricetick c);
              volume' = round_to env volume (contract_min_volume c)
          in if stop then
               (if contract_stop_supported c
                then send_server_stop_order env p (Some c) direction offset price' volume' lock net e
                else Inr (send_local_stop_order env p direction offset price' volume' lock net e))
             else send_limit_order env p (Some c) direction offset price' volume' lock net e)"

subsection \<open>Cancelling\<close>

definition cancel_server_order :: "Env \<Rightarrow> nat \<Rightarrow> string \<Rightarrow> Engine \<Rightarrow> Engine" where
  "cancel_server_order env p vt_orderid e =
     (case get_order env e vt_orderid of
        None \<Rightarrow> write_log MSG_CANCEL_NO_ORDER [vt_orderid] (Some p) e
      | Some order \<Rightarrow> call_main (CancelOrder order (order_gateway_name order)) e)"

definition cancel_local_stop_order :: "Env \<Rightarrow> nat \<Rightarrow> string \<Rightarrow> Engine \<Rightarrow> (PyError \<times> Engine) + Engine" where
  "cancel_local_stop_order env p sid e =
     (case map_of (stop_orders e) sid of
        None \<Rightarrow> Inr e
      | Some stop_order \<Rightarrow>
          (case strategies e (so_strategy_name stop_order) of
             None \<Rightarrow> Inl (KeyError, e)
           | Some q \<Rightarrow>
               let e1 = e\<lparr>stop_orders := AList.delete sid (stop_orders e)\<rparr>;
                   e2 = discard_orderid (strategy_name (heap e1 q)) sid e1;
                   stop_order' = stop_order\<lparr>so_status := STOP_CANCELLED\<rparr>;
                   e3 = call_strategy_func q (bound env on_stop_order q e2)
                          (StopOrderParams stop_order') e2
               in Inr (put_stop_order_event stop_order' e3)))"

definition cancel_order :: "Env \<Rightarrow> nat \<Rightarrow> string \<Rightarrow> Engine \<Rightarrow> (PyError \<times> Engine) + Engine" where
  "cancel_order env p vt_orderid e =
     (if startswith vt_orderid STOPORDER_PREFIX then cancel_local_stop_order env p vt_orderid e
      else Inr (cancel_server_order env p vt_orderid e))"

fun cancel_each :: "Env \<Rightarrow> nat \<Rightarrow> string list \<Rightarrow> Engine \<Rightarrow> (PyError \<times> Engine) + Engine" where
  "cancel_each env p [] e = Inr e"
| "cancel_each env p (vt_orderid # rest) e =
     (case cancel_order env p vt_orderid e of
        Inl err \<Rightarrow> Inl err
      | Inr e' \<Rightarrow> cancel_each env p rest e')"

definition cancel_all :: "Env \<Rightarrow> nat \<Rightarrow> Engine \<Rightarrow> (PyError \<times> Engine) + Engine" where
  "cancel_all env p e =
     (let e1 = touch_orderids (strategy_name (heap e p)) e;
          vt_orderids = orderids_of e1 (strategy_name (heap e p))
      in if vt_orderids = {} then Inr e1
         else cancel_each env p (iter_set env vt_orderids) e1)"

subsection \<open>Stop-order evaluation and tick events\<close>

text \<open>The price of the limit order a triggered stop order turns into: the limit price
  when the tick has one, otherwise the fifth level of the book.\<close>

definition trigger_price :: "TickData \<Rightarrow> StopOrder \<Rightarrow> real" where
  "trigger_price tick stop_order =
     (if so_direction stop_order = LONG
      then (if truthy_price (limit_up tick) then the (limit_up tick) else ask_price_5 tick)
      else (if truthy_price (limit_down tick) then the (limit_down tick) else bid_price_5 tick))"

text \<open>The body of the loop of \<^verbatim>\<open>check_stop_order\<close> for one entry of the snapshot.
  \<^verbatim>\<open>self.stop_orders.pop(stop_order.stop_orderid)\<close> raises \<^verbatim>\<open>KeyError\<close> when the entry
  has left the registry since the snapshot was taken.\<close>

definition check_one :: "Env \<Rightarrow> TickData \<Rightarrow> StopOrder \<Rightarrow> Engine \<Rightarrow> (PyError \<times> Engine) + Engine" where
  "check_one env tick stop_order e =
     (if so_vt_symbol stop_order \<noteq> tick_vt_symbol tick then Inr e
      else
        let long_triggered =
              (so_direction stop_order = LONG \<and> last_price tick \<ge> so_price stop_order);
            short_triggered =
              (so_direction stop_order = SHORT \<and> last_price tick \<le> so_price stop_order)
        in if long_triggered \<or> short_triggered then
             (case strategies e (so_strategy_name stop_order) of
                None \<Rightarrow> Inl (KeyError, e)
              | Some p \<Rightarrow>
                  let price = trigger_price tick stop_order;
                      contract = get_contract env e (so_vt_symbol stop_order)
                  in (case send_limit_order env p contract (so_direction stop_order)
                             (so_offset stop_order) price (so_volume stop_order)
                             (so_lock stop_order) (so_net stop_order) e of
                        Inl err \<Rightarrow> Inl err
                      | Inr (vt_orderids, e1) \<Rightarrow>
                          if vt_orderids \<noteq> [] then
                            (if stop_orderid stop_order \<notin> fst ` set (stop_orders e1)
                             then Inl (KeyError, e1)
                             else
                               let e2 = e1\<lparr>stop_orders :=
                                          AList.delete (stop_orderid stop_order) (stop_orders e1)\<rparr>;
                                   e3 = discard_orderid (strategy_name (heap e2 p))
                                          (stop_orderid stop_order) e2;
                                   stop_order' = stop_order\<lparr>so_status := TRIGGERED,
                                                   so_vt_orderids := vt_orderids\<rparr>;
                                   e4 = call_strategy_func p (bound env on_stop_order p e3)
                                          (StopOrderParams stop_order') e3
                               in Inr (put_stop_order_event stop_order' e4))
                          else Inr e1))
           else Inr e)"

fun check_each :: "Env \<Rightarrow> TickData \<Rightarrow> StopOrder list \<Rightarrow> Engine \<Rightarrow> (PyError \<times> Engine) + Engine" where
  "check_each env tick [] e = Inr e"
| "check_each env tick (stop_order # rest) e =
     (case check_one env tick stop_order e of
        Inl err \<Rightarrow> Inl err
      | Inr e' \<Rightarrow> check_each env tick rest e')"

text \<open>\<^verbatim>\<open>check_stop_order\<close>: the loop runs over \<^verbatim>\<open>list(self.stop_orders.values())\<close>, a snapshot.\<close>

definition check_stop_order :: "Env \<Rightarrow> TickData \<Rightarrow> Engine \<Rightarrow> (PyError \<times> Engine) + Engine" where
  "check_stop_order env tick e = check_each env tick (map snd (stop_orders e)) e"

fun tick_each :: "Env \<Rightarrow> TickData \<Rightarrow> nat list \<Rightarrow> Engine \<Rightarrow> Engine" where
  "tick_each env tick [] e = e"
| "tick_each env tick (p # ps) e =
     tick_each env tick ps
       (if inited (heap e p)
        then call_strategy_func p (bound env on_tick p e) (TickParams tick) e
        else e)"

text \<open>\<^verbatim>\<open>process_tick_event\<close>.  The list of subscribed strategies is read once; the model
  dispatches to the strategies it held when the loop started.\<close>

definition process_tick_event :: "Env \<Rightarrow> TickData \<Rightarrow> Engine \<Rightarrow> (PyError \<times> Engine) + Engine" where
  "process_tick_event env tick e =
     (let e0 = touch_symbol (tick_vt_symbol tick) e;
          subscribed = strategies_of e0 (tick_vt_symbol tick)
      in if subscribed = [] then Inr e0
         else (case check_stop_order env tick e0 of
                 Inl err \<Rightarrow> Inl err
               | Inr e1 \<Rightarrow> Inr (tick_each env tick subscribed e1)))"

subsection \<open>Order events\<close>

definition process_order_event :: "Env \<Rightarrow> OrderData \<Rightarrow> Engine \<Rightarrow> Engine" where
  "process_order_event env order e =
     (case orderid_strategy_map e (order_vt_orderid order) of
        None \<Rightarrow> e
      | Some p \<Rightarrow>
          let e1 = touch_orderids (strategy_name (heap e p)) e;
              e2 = (if order_vt_orderid order \<in> orderids_of e1 (strategy_name (heap e p))
                       \<and> \<not> is_active order
                    then discard_orderid (strategy_name (heap e p)) (order_vt_orderid order) e1
                    else e1);
              e3 = (if order_type order = STOP then
                      call_strategy_func p (bound env on_stop_order p e2)
                        (StopOrderParams
                           \<lparr>so_vt_symbol = order_vt_symbol order,
                            so_direction = order_direction order,
                            so_offset = order_offset order, so_price = order_price order,
                            so_volume = order_volume order,
                            stop_orderid = order_vt_orderid order,
                            so_strategy_name = strategy_name (heap e2 p),
                            so_datetime = order_datetime order, so_lock = False, so_net = False,
                            so_vt_orderids = [order_vt_orderid order],
                            so_status = STOP_STATUS_MAP (order_status order)\<rparr>) e2
                    else e2)
          in call_strategy_func p (bound env on_order p e3) (OrderParams order) e3)"

subsection \<open>Strategy lifecycle\<close>

text \<open>
  Modelled from the spec: the constructor of a strategy instance is in the template
  module, which is not among the sources.  By the spec's data model a new instance carries
  its name and instrument, starts uninitialised and not trading, and has a numeric position
  accumulator; the declared variables and their defaults come from its class.
\<close>

definition new_strategy :: "Env \<Rightarrow> string \<Rightarrow> string \<Rightarrow> string \<Rightarrow> (string \<rightharpoonup> PyVal) \<Rightarrow> Strategy" where
  "new_strategy env cls name symb setting =
     \<lparr>strategy_name = name, vt_symbol = symb, class_name = cls, inited = False,
      trading = False, pos = 0, user_vars = class_variables env cls, params = setting\<rparr>"

definition update_strategy_setting :: "string \<Rightarrow> (string \<rightharpoonup> PyVal) \<Rightarrow> Engine
    \<Rightarrow> (PyError \<times> Engine) + Engine" where
  "update_strategy_setting name setting e =
     (case strategies e name of
        None \<Rightarrow> Inl (KeyError, e)
      | Some p \<Rightarrow>
          let ss = (strategy_setting e)(name \<mapsto>
                     \<lparr>setting_class_name = class_name (heap e p),
                      setting_vt_symbol = vt_symbol (heap e p),
                      setting_dict = setting\<rparr>)
          in Inr (e\<lparr>strategy_setting := ss, setting_file := ss\<rparr>))"

text \<open>\<^verbatim>\<open>add_strategy\<close>.  \<^verbatim>\<open>__, exchange_str = vt_symbol.split(".")\<close> unpacks exactly two
  parts and raises \<^verbatim>\<open>ValueError\<close> on any other number.\<close>

definition add_strategy :: "Env \<Rightarrow> string \<Rightarrow> string \<Rightarrow> string \<Rightarrow> (string \<rightharpoonup> PyVal) \<Rightarrow> Engine
    \<Rightarrow> (PyError \<times> Engine) + Engine" where
  "add_strategy env cname name symb setting e =
     (if name \<in> dom (strategies e) then Inr (write_log MSG_ADD_DUPLICATE_NAME [name] None e)
      else
        (case classes e cname of
           None \<Rightarrow> Inr (write_log MSG_ADD_CLASS_NOT_FOUND [cname] None e)
         | Some cls \<Rightarrow>
             if CHR ''.'' \<notin> set symb then Inr (write_log MSG_ADD_MISSING_EXCHANGE [] None e)
             else
               (case split_on CHR ''.'' symb of
                  [_, exchange_str] \<Rightarrow>
                    if exchange_str \<notin> exchange_members env
                    then Inr (write_log MSG_ADD_BAD_EXCHANGE [] None e)
                    else
                      let p = next_obj e;
                          e1 = e\<lparr>heap := (heap e)(p := new_strategy env cls name symb setting),
                                 next_obj := p + 1\<rparr>;
                          e2 = e1\<lparr>strategies := (strategies e1)(name \<mapsto> p)\<rparr>;
                          e3 = e2\<lparr>symbol_strategy_map :=
                                 (symbol_strategy_map e2)(symb \<mapsto> strategies_of e2 symb @ [p])\<rparr>
                      in (case update_strategy_setting name setting e3 of
                            Inl err \<Rightarrow> Inl err
                          | Inr e4 \<Rightarrow> Inr (put_strategy_event p e4))
                | _ \<Rightarrow> Inl (ValueError, e))))"

text \<open>The restore loop of \<^verbatim>\<open>_init_strategy\<close>: every declared variable whose stored value
  is not \<^verbatim>\<open>None\<close> is set.  A stored position that is not a number is outside the model.
  Stored data that is an empty dictionary (skipped by \<^verbatim>\<open>if data:\<close>) restores nothing
  here either.\<close>

definition restore_variables :: "VarData \<Rightarrow> Strategy \<Rightarrow> Strategy" where
  "restore_variables d s =
     s\<lparr>pos := (case data_pos d of PyNum x \<Rightarrow> x | _ \<Rightarrow> pos s),
       user_vars := (\<lambda>k. if k \<in> dom (user_vars s)
                          then (case data_vars d k of
                                  None \<Rightarrow> user_vars s k
                                | Some PyNone \<Rightarrow> user_vars s k
                                | Some v \<Rightarrow> Some v)
                          else user_vars s k)\<rparr>"

text \<open>\<^verbatim>\<open>_init_strategy\<close>, the body that \<^verbatim>\<open>init_strategy\<close> hands to the single init worker.\<close>

definition init_strategy :: "Env \<Rightarrow> string \<Rightarrow> Engine \<Rightarrow> (PyError \<times> Engine) + Engine" where
  "init_strategy env name e =
     (case strategies e name of
        None \<Rightarrow> Inl (KeyError, e)
      | Some p \<Rightarrow>
          if inited (heap e p) then Inr (write_log MSG_ALREADY_INITED [name] None e)
          else
            let e1 = write_log MSG_INIT_BEGIN [name] None e;
                e2 = call_strategy_func p (bound env on_init p e1) NoParams e1;
                e3 = (case strategy_data e2 name of
                        None \<Rightarrow> e2
                      | Some d \<Rightarrow> set_strategy p (restore_variables d) e2);
                e4 = (case get_contract env e3 (vt_symbol (heap e3 p)) of
                        Some c \<Rightarrow> call_main (Subscribe (contract_symbol c) (contract_exchange c)
                                               (contract_gateway_name c)) e3
                      | None \<Rightarrow> write_log MSG_SUBSCRIBE_NO_CONTRACT [vt_symbol (heap e3 p)]
                                  (Some p) e3);
                e5 = set_strategy p (\<lambda>s. s\<lparr>inited := True\<rparr>) e4;
                e6 = put_strategy_event p e5
            in Inr (write_log MSG_INIT_DONE [name] None e6))"

definition start_strategy :: "Env \<Rightarrow> string \<Rightarrow> Engine \<Rightarrow> (PyError \<times> Engine) + Engine" where
  "start_strategy env name e =
     (case strategies e name of
        None \<Rightarrow> Inl (KeyError, e)
      | Some p \<Rightarrow>
          if \<not> inited (heap e p)
          then Inr (write_log MSG_START_NOT_INITED [strategy_name (heap e p)] None e)
          else if trading (heap e p) then Inr (write_log MSG_ALREADY_STARTED [name] None e)
          else
            let e1 = call_strategy_func p (bound env on_start p e) NoParams e;
                e2 = set_strategy p (\<lambda>s. s\<lparr>trading := True\<rparr>) e1
            in Inr (put_strategy_event p e2))"

definition stop_strategy :: "Env \<Rightarrow> string \<Rightarrow> Engine \<Rightarrow> (PyError \<times> Engine) + Engine" where
  "stop_strategy env name e =
     (case strategies e name of
        None \<Rightarrow> Inl (KeyError, e)
      | Some p \<Rightarrow>
          if \<not> trading (heap e p) then Inr e
          else
            let e1 = call_strategy_func p (bound env on_stop p e) NoParams e;
                e2 = set_strategy p (\<lambda>s. s\<lparr>trading := False\<rparr>) e1
            in (case cancel_all env p e2 of
                  Inl err \<Rightarrow> Inl err
                | Inr e3 \<Rightarrow> Inr (put_strategy_event p (sync_strategy_data p e3))))"

definition remove_strategy_setting :: "string \<Rightarrow> Engine \<Rightarrow> Engine" where
  "remove_strategy_setting name e =
     (if name \<notin> dom (strategy_setting e) then e
      else
        let ss = (strategy_setting e)(name := None);
            e1 = e\<lparr>strategy_setting := ss, setting_file := ss\<rparr>;
            sd = (strategy_data e1)(name := None)
        in e1\<lparr>strategy_data := sd, data_file := sd\<rparr>)"

text \<open>\<^verbatim>\<open>remove_strategy\<close>.  \<^verbatim>\<open>strategies.remove(strategy)\<close> deletes the first occurrence
  and raises \<^verbatim>\<open>ValueError\<close> when there is none; the loop over the popped id set deletes
  each of its ids from \<^verbatim>\<open>orderid_strategy_map\<close>.\<close>

definition remove_strategy :: "Env \<Rightarrow> string \<Rightarrow> Engine \<Rightarrow> bool Exec" where
  "remove_strategy env name e =
     (case strategies e name of
        None \<Rightarrow> Inl (KeyError, e)
      | Some p \<Rightarrow>
          if trading (heap e p)
          then Inr (False, write_log MSG_REMOVE_TRADING [strategy_name (heap e p)] None e)
          else
            let e1 = remove_strategy_setting name e;
                e2 = touch_symbol (vt_symbol (heap e1 p)) e1;
                subscribed = strategies_of e2 (vt_symbol (heap e2 p))
            in if p \<notin> set subscribed then Inl (ValueError, e2)
               else
                 let e3 = e2\<lparr>symbol_strategy_map :=
                            (symbol_strategy_map e2)(vt_symbol (heap e2 p) \<mapsto> remove1 p subscribed)\<rparr>;
                     e4 = (case strategy_orderid_map e3 name of
                             None \<Rightarrow> e3
                           | Some vt_orderids \<Rightarrow>
                               e3\<lparr>strategy_orderid_map := (strategy_orderid_map e3)(name := None),
                                  orderid_strategy_map :=
                                    (\<lambda>i. if i \<in> vt_orderids then None
                                          else orderid_strategy_map e3 i)\<rparr>);
                     e5 = e4\<lparr>strategies := (strategies e4)(name := None)\<rparr>
                 in Inr (True, write_log MSG_REMOVE_DONE [strategy_name (heap e5 p)] None e5))"

subsection \<open>The engine after construction\<close>

text \<open>\<^verbatim>\<open>CtaEngine.__init__\<close>, with the strategy classes \<^verbatim>\<open>load_strategy_class\<close> found.\<close>

definition new_engine :: "(string \<rightharpoonup> string) \<Rightarrow> Engine" where
  "new_engine loaded =
     \<lparr>strategy_setting = Map.empty, strategy_data = Map.empty, classes = loaded,
      strategies = Map.empty, symbol_strategy_map = Map.empty,
      orderid_strategy_map = Map.empty, strategy_orderid_map = Map.empty,
      stop_order_count = 0, stop_orders = [], vt_tradeids = {},
      heap = (\<lambda>_. \<lparr>strategy_name = [], vt_symbol = [], class_name = [], inited = False,
                    trading = False, pos = 0, user_vars = Map.empty, params = Map.empty\<rparr>),
      next_obj = 0, setting_file = Map.empty, data_file = Map.empty,
      events = [], main_calls = []\<rparr>"

section \<open>Vocabulary of the properties\<close>

text \<open>The state an operation leaves behind, whether it returned or raised.\<close>

definition state_of :: "(PyError \<times> Engine) + Engine \<Rightarrow> Engine" where
  "state_of r = (case r of Inl (err, e) \<Rightarrow> e | Inr e \<Rightarrow> e)"

definition exec_state :: "'a Exec \<Rightarrow> Engine" where
  "exec_state r = (case r of Inl (err, e) \<Rightarrow> e | Inr (v, e) \<Rightarrow> e)"

definition cb_state :: "CbResult \<Rightarrow> Engine" where
  "cb_state r = (case r of Returned e \<Rightarrow> e | Raised tb e \<Rightarrow> e)"

text \<open>A callback that never takes an id out of the set of seen trade ids.\<close>

definition keeps_tradeids :: "Callback \<Rightarrow> bool" where
  "keeps_tradeids cb = (\<forall>prm e. vt_tradeids e \<subseteq> vt_tradeids (cb_state (cb prm e)))"

subsection \<open>Concrete collaborators and states\<close>

text \<open>Two strategy classes: \<^verbatim>\<open>Quiet\<close>, whose callbacks return at once, and \<^verbatim>\<open>Faulty\<close>,
  whose callbacks all raise.\<close>

definition quiet_callbacks :: Callbacks where
  "quiet_callbacks =
     \<lparr>on_init = (\<lambda>p prm e. Returned e), on_start = (\<lambda>p prm e. Returned e),
      on_stop = (\<lambda>p prm e. Returned e), on_tick = (\<lambda>p prm e. Returned e),
      on_order = (\<lambda>p prm e. Returned e), on_trade = (\<lambda>p prm e. Returned e),
      on_stop_order = (\<lambda>p prm e. Returned e)\<rparr>"

definition faulty_callbacks :: Callbacks where
  "faulty_callbacks =
     \<lparr>on_init = (\<lambda>p prm e. Raised ''Traceback: on_init'' e),
      on_start = (\<lambda>p prm e. Raised ''Traceback: on_start'' e),
      on_stop = (\<lambda>p prm e. Raised ''Traceback: on_stop'' e),
      on_tick = (\<lambda>p prm e. Raised ''Traceback: on_tick'' e),
      on_order = (\<lambda>p prm e. Raised ''Traceback: on_order'' e),
      on_trade = (\<lambda>p prm e. Raised ''Traceback: on_trade'' e),
      on_stop_order = (\<lambda>p prm e. Raised ''Traceback: on_stop_order'' e)\<rparr>"

definition contract_X :: ContractData where
  "contract_X = \<lparr>contract_symbol = ''X'', contract_exchange = ''E'',
     contract_gateway_name = ''G'', contract_pricetick = 1 / 2, contract_min_volume = 1,
     contract_stop_supported = False\<rparr>"

text \<open>A gateway that knows the instrument \<^verbatim>\<open>X.E\<close>, leaves requests as they are, and accepts
  every order under the id \<^verbatim>\<open>G.1\<close> unless that id is already attributed.  Sets are
  iterated in the order of their elements.\<close>

definition demo_env :: Env where
  "demo_env =
     \<lparr>exchange_members = {''E'', ''SSE''},
      get_contract = (\<lambda>e s. if s = ''X.E'' then Some contract_X else None),
      get_order = (\<lambda>e i. None),
      convert_order_request = (\<lambda>e req g lock net. [req]),
      main_send_order = (\<lambda>e req g. if ''G.1'' \<in> dom (orderid_strategy_map e) then [] else ''G.1''),
      round_to = (\<lambda>v target. v),
      now = (\<lambda>e. 0),
      iter_set = sorted_list_of_set,
      class_variables = (\<lambda>c. Map.empty),
      behaviour = (\<lambda>c. if c = ''Faulty'' then faulty_callbacks else quiet_callbacks)\<rparr>"

definition demo_classes :: "string \<rightharpoonup> string" where
  "demo_classes = [''Quiet'' \<mapsto> ''Quiet'', ''Faulty'' \<mapsto> ''Faulty'']"

definition tick_X :: TickData where
  "tick_X = \<lparr>tick_vt_symbol = ''X.E'', last_price = 100, limit_up = None, limit_down = None,
     ask_price_5 = 201 / 2, bid_price_5 = 199 / 2\<rparr>"

definition trade_T1 :: TradeData where
  "trade_T1 = \<lparr>trade_vt_tradeid = ''G.T1'', trade_vt_orderid = ''G.1'',
     trade_direction = LONG, trade_volume = 1\<rparr>"

text \<open>The engine with one \<^verbatim>\<open>Quiet\<close> strategy \<^verbatim>\<open>s1\<close> on \<^verbatim>\<open>X.E\<close>.\<close>

definition engine_s1 :: Engine where
  "engine_s1 = state_of (add_strategy demo_env ''Quiet'' ''s1'' ''X.E'' Map.empty (new_engine demo_classes))"

text \<open>The same engine after \<^verbatim>\<open>s1\<close> sent a limit order, accepted as \<^verbatim>\<open>G.1\<close>.\<close>

definition engine_s1_order :: Engine where
  "engine_s1_order =
     exec_state (send_order demo_env 0 LONG OPEN 100 1 False False False engine_s1)"

text \<open>The engine with one \<^verbatim>\<open>Faulty\<close> strategy \<^verbatim>\<open>f1\<close> on \<^verbatim>\<open>X.E\<close>.\<close>

definition engine_f1 :: Engine where
  "engine_f1 = state_of (add_strategy demo_env ''Faulty'' ''f1'' ''X.E'' Map.empty (new_engine demo_classes))"






text \<open>A property shared by all callbacks of all loaded classes.\<close>

definition every_callback :: "Env \<Rightarrow> (Callback \<Rightarrow> bool) \<Rightarrow> bool" where
  "every_callback env P =
     (\<forall>cls p. P (on_init (behaviour env cls) p) \<and> P (on_start (behaviour env cls) p) \<and>
              P (on_stop (behaviour env cls) p) \<and> P (on_tick (behaviour env cls) p) \<and>
              P (on_order (behaviour env cls) p) \<and> P (on_trade (behaviour env cls) p) \<and>
              P (on_stop_order (behaviour env cls) p))"

text \<open>
  One operation of the engine, called from outside or by a strategy on itself, taking the
  state \<open>e\<close> to the state it leaves behind (also when it raises).  Strategy instances
  that call the engine are allocated ones.
\<close>

inductive engine_step :: "Env \<Rightarrow> Engine \<Rightarrow> Engine \<Rightarrow> bool" for env :: Env where
  tick_step: "engine_step env e (state_of (process_tick_event env tick e))"
| order_step: "engine_step env e (process_order_event env order e)"
| trade_step: "engine_step env e (process_trade_event env trade e)"
| send_step: "p < next_obj e \<Longrightarrow>
    engine_step env e (exec_state (send_order env p direction offset price volume stop lock net e))"
| cancel_step: "p < next_obj e \<Longrightarrow> engine_step env e (state_of (cancel_order env p vt_orderid e))"
| cancel_all_step: "p < next_obj e \<Longrightarrow> engine_step env e (state_of (cancel_all env p e))"
| add_step: "engine_step env e (state_of (add_strategy env cname name symb setting e))"
| init_step: "engine_step env e (state_of (init_strategy env name e))"
| start_step: "engine_step env e (state_of (start_strategy env name e))"
| stop_step: "engine_step env e (state_of (stop_strategy env name e))"
| remove_step: "engine_step env e (exec_state (remove_strategy env name e))"




text \<open>The engine of \<^verbatim>\<open>s1\<close> that received the trade \<^verbatim>\<open>G.T1\<close> for the order \<^verbatim>\<open>G.1\<close> before
  that order id was attributed to any strategy, and in which \<^verbatim>\<open>s1\<close> then sent an order that
  the gateway accepted as \<^verbatim>\<open>G.1\<close>.\<close>

definition engine_s1_early_trade :: Engine where
  "engine_s1_early_trade = process_trade_event demo_env trade_T1 engine_s1"

definition engine_s1_late_order :: Engine where
  "engine_s1_late_order =
     exec_state (send_order demo_env 0 LONG OPEN 100 1 False False False engine_s1_early_trade)"

subsection \<open>The invariant of the relationship index\<close>














section \<open>Properties\<close>

subsection \<open>Evaluation of the concrete states\<close>

lemmas demo_defs = demo_env_def demo_classes_def contract_X_def quiet_callbacks_def
  faulty_callbacks_def tick_X_def trade_T1_def

lemmas engine_defs = add_strategy_def new_engine_def state_of_def exec_state_def
  update_strategy_setting_def put_strategy_event_def put_stop_order_event_def put_event_def
  new_strategy_def strategies_of_def orderids_of_def Let_def write_log_def send_order_def
  send_limit_order_def send_server_order_def send_server_stop_order_def call_main_def
  add_orderid_def discard_orderid_def touch_symbol_def touch_orderids_def set_strategy_def
  call_strategy_func_def bound_def sync_strategy_data_def get_variables_def

lemma engine_s1_strategies: "strategies engine_s1 ''s1'' = Some 0"
  by (simp add: engine_s1_def engine_defs demo_defs)


lemma engine_s1_order_attributed: "orderid_strategy_map engine_s1_order ''G.1'' = Some 0"
  by (simp add: engine_s1_order_def engine_s1_def engine_defs demo_defs)

lemma engine_s1_order_tradeids: "vt_tradeids engine_s1_order = {}"
  by (simp add: engine_s1_order_def engine_s1_def engine_defs demo_defs)

lemma demo_env_keeps_tradeids: "keeps_tradeids (on_trade (behaviour demo_env c) p)"
  by (simp add: keeps_tradeids_def cb_state_def demo_defs)

subsection \<open>Facts about callbacks and notifications\<close>

lemma vt_tradeids_call_strategy_func:
  "keeps_tradeids func \<Longrightarrow> vt_tradeids e \<subseteq> vt_tradeids (call_strategy_func p func prm e)"
  unfolding keeps_tradeids_def call_strategy_func_def cb_state_def write_log_def put_event_def
    set_strategy_def
  by (auto split: CbResult.splits)

lemma trade_id_recorded:
  assumes "\<forall>c p. keeps_tradeids (on_trade (behaviour env c) p)"
  shows "trade_vt_tradeid trade \<in> vt_tradeids (process_trade_event env trade e)"
proof (cases "trade_vt_tradeid trade \<in> vt_tradeids e")
  case True
  then show ?thesis by (simp add: process_trade_event_def)
next
  case False
  show ?thesis
  proof (cases "orderid_strategy_map e (trade_vt_orderid trade)")
    case None
    with False show ?thesis by (simp add: process_trade_event_def)
  next
    case (Some p)
    let ?e1 = "e\<lparr>vt_tradeids := insert (trade_vt_tradeid trade) (vt_tradeids e)\<rparr>"
    let ?e2 = "(if trade_direction trade = LONG
                then set_strategy p (\<lambda>s. s\<lparr>pos := pos s + trade_volume trade\<rparr>) ?e1
                else set_strategy p (\<lambda>s. s\<lparr>pos := pos s - trade_volume trade\<rparr>) ?e1)"
    have a: "trade_vt_tradeid trade \<in> vt_tradeids ?e2"
      by (simp add: set_strategy_def)
    have k: "keeps_tradeids (bound env on_trade p ?e2)"
      using assms by (simp add: bound_def)
    from vt_tradeids_call_strategy_func[OF k, of ?e2 p "TradeParams trade"] a
    have b: "trade_vt_tradeid trade \<in> vt_tradeids
               (call_strategy_func p (bound env on_trade p ?e2) (TradeParams trade) ?e2)"
      by blast
    from False Some b show ?thesis
      by (simp add: process_trade_event_def Let_def sync_strategy_data_def
          put_strategy_event_def put_event_def)
  qed
qed

lemma bound_callback:
  assumes "every_callback env P"
  shows "P (bound env on_init p e)" "P (bound env on_start p e)" "P (bound env on_stop p e)"
    "P (bound env on_tick p e)" "P (bound env on_order p e)" "P (bound env on_trade p e)"
    "P (bound env on_stop_order p e)"
  using assms by (simp_all add: every_callback_def bound_def)

subsection \<open>Duplicate trades\<close>

text \<open>
  Claim C6.  A trade whose trade id is already in the set of seen ids leaves the engine
  exactly as it was, whatever the strategies' callbacks are: no position changes, no
  callback runs, nothing is saved and nothing is put on the event engine.  Moreover, when
  the trade callbacks never take ids out of the seen set, delivering a trade twice leaves
  the same state as delivering it once.
\<close>

theorem seen_trade_is_discarded:
  "(trade_vt_tradeid trade \<in> vt_tradeids e \<longrightarrow> process_trade_event env trade e = e) \<and>
   ((\<forall>c p. keeps_tradeids (on_trade (behaviour env c) p)) \<longrightarrow>
      process_trade_event env trade (process_trade_event env trade e)
        = process_trade_event env trade e)"
proof (intro conjI impI)
  assume "trade_vt_tradeid trade \<in> vt_tradeids e"
  then show "process_trade_event env trade e = e"
    by (simp add: process_trade_event_def)
next
  assume "\<forall>c p. keeps_tradeids (on_trade (behaviour env c) p)"
  then have "trade_vt_tradeid trade \<in> vt_tradeids (process_trade_event env trade e)"
    by (rule trade_id_recorded)
  then show "process_trade_event env trade (process_trade_event env trade e)
      = process_trade_event env trade e"
    by (simp add: process_trade_event_def[of env trade "process_trade_event env trade e"])
qed

theorem seen_trade_is_discarded_witness:
  "trade_vt_tradeid trade_T1 \<in> vt_tradeids (process_trade_event demo_env trade_T1 engine_s1_order) \<and>
   pos (heap (process_trade_event demo_env trade_T1 engine_s1_order) 0) = 1 \<and>
   process_trade_event demo_env trade_T1 (process_trade_event demo_env trade_T1 engine_s1_order)
     = process_trade_event demo_env trade_T1 engine_s1_order"
proof -
  have seen: "trade_vt_tradeid trade_T1
      \<in> vt_tradeids (process_trade_event demo_env trade_T1 engine_s1_order)"
    by (simp add: process_trade_event_def engine_s1_order_attributed engine_s1_order_tradeids
        engine_defs demo_defs)
  have moved: "pos (heap (process_trade_event demo_env trade_T1 engine_s1_order) 0) = 1"
    by (simp add: process_trade_event_def engine_s1_order_def engine_s1_def engine_defs demo_defs)
  have keeps: "\<forall>c p. keeps_tradeids (on_trade (behaviour demo_env c) p)"
    by (simp add: demo_env_keeps_tradeids)
  from seen_trade_is_discarded[of trade_T1
      "process_trade_event demo_env trade_T1 engine_s1_order" demo_env] seen moved keeps
  show ?thesis by simp
qed

subsection \<open>Ticks without subscribers\<close>

text \<open>
  Claim C7, as the code has it.  When no strategy is subscribed to the tick's instrument,
  processing the tick returns without evaluating stop orders or running callbacks, and the
  only state that can change is the instrument-to-strategies map: being a
  \<^verbatim>\<open>defaultdict\<close>, it gains the instrument as a key bound to the empty list when the
  instrument was not a key yet, and is unchanged otherwise.
\<close>

theorem tick_without_subscribers:
  "strategies_of e (tick_vt_symbol tick) = [] \<Longrightarrow>
   process_tick_event env tick e =
     Inr (if tick_vt_symbol tick \<in> dom (symbol_strategy_map e) then e
          else e\<lparr>symbol_strategy_map := (symbol_strategy_map e)(tick_vt_symbol tick \<mapsto> [])\<rparr>)"
  by (auto simp: process_tick_event_def touch_symbol_def strategies_of_def Let_def
      split: option.splits)

theorem tick_without_subscribers_witness:
  "strategies_of (new_engine demo_classes) (tick_vt_symbol tick_X) = [] \<and>
   process_tick_event demo_env tick_X (new_engine demo_classes) =
     Inr ((new_engine demo_classes)\<lparr>symbol_strategy_map := [''X.E'' \<mapsto> []]\<rparr>)"
proof -
  have none: "strategies_of (new_engine demo_classes) (tick_vt_symbol tick_X) = []"
    by (simp add: strategies_of_def new_engine_def)
  from tick_without_subscribers[OF none, of demo_env] none show ?thesis
    by (simp add: new_engine_def tick_X_def)
qed

text \<open>The claim as stated fails: a tick for an instrument that is not yet a key changes
  the instrument-to-strategies map of the freshly constructed engine.\<close>

theorem tick_without_subscribers_changes_map:
  "strategies_of (new_engine demo_classes) (tick_vt_symbol tick_X) = [] \<and>
   process_tick_event demo_env tick_X (new_engine demo_classes) \<noteq> Inr (new_engine demo_classes) \<and>
   symbol_strategy_map (new_engine demo_classes) ''X.E'' = None \<and>
   symbol_strategy_map (state_of (process_tick_event demo_env tick_X (new_engine demo_classes))) ''X.E''
     = Some []"
proof -
  have a: "symbol_strategy_map (new_engine demo_classes) ''X.E'' = None"
    by (simp add: new_engine_def)
  have b: "symbol_strategy_map
      (state_of (process_tick_event demo_env tick_X (new_engine demo_classes))) ''X.E'' = Some []"
    by (simp add: process_tick_event_def touch_symbol_def strategies_of_def new_engine_def
        tick_X_def state_of_def)
  have c: "process_tick_event demo_env tick_X (new_engine demo_classes) \<noteq> Inr (new_engine demo_classes)"
  proof
    assume "process_tick_event demo_env tick_X (new_engine demo_classes) = Inr (new_engine demo_classes)"
    then have "state_of (process_tick_event demo_env tick_X (new_engine demo_classes))
        = new_engine demo_classes"
      by (simp add: state_of_def)
    with a b show False by simp
  qed
  have d: "strategies_of (new_engine demo_classes) (tick_vt_symbol tick_X) = []"
    by (simp add: strategies_of_def new_engine_def)
  from a b c d show ?thesis by simp
qed

subsection \<open>Rejected configurations of \<^verbatim>\<open>add_strategy\<close>\<close>

lemma split_on_nonempty: "split_on c s \<noteq> []"
  by (induction s) (auto split: list.splits)

lemma length_split_on: "length (split_on c s) = Suc (count_list s c)"
  by (induction s) (auto split: list.splits simp: split_on_nonempty)

lemma three_parts:
  assumes "3 \<le> length xs"
  obtains a b c rest where "xs = a # b # c # rest"
  using assms by (cases xs; cases "tl xs"; cases "tl (tl xs)") auto

text \<open>The rejections that work as the specification says: a log notification, nothing
  else changes, no exception.\<close>

lemma add_strategy_rejections:
  "name \<in> dom (strategies e) \<Longrightarrow>
     add_strategy env cname name symb setting e
       = Inr (write_log MSG_ADD_DUPLICATE_NAME [name] None e)"
  "name \<notin> dom (strategies e) \<Longrightarrow> classes e cname = None \<Longrightarrow>
     add_strategy env cname name symb setting e
       = Inr (write_log MSG_ADD_CLASS_NOT_FOUND [cname] None e)"
  "name \<notin> dom (strategies e) \<Longrightarrow> classes e cname = Some cls \<Longrightarrow> CHR ''.'' \<notin> set symb \<Longrightarrow>
     add_strategy env cname name symb setting e
       = Inr (write_log MSG_ADD_MISSING_EXCHANGE [] None e)"
  "name \<notin> dom (strategies e) \<Longrightarrow> classes e cname = Some cls \<Longrightarrow>
     count_list symb CHR ''.'' = 1 \<Longrightarrow>
     last (split_on CHR ''.'' symb) \<notin> exchange_members env \<Longrightarrow>
     add_strategy env cname name symb setting e
       = Inr (write_log MSG_ADD_BAD_EXCHANGE [] None e)"
     apply (simp_all add: add_strategy_def)
  subgoal premises prems
  proof -
    from prems(3) have "length (split_on CHR ''.'' symb) = 2"
      by (simp add: length_split_on)
    then obtain a b where ab: "split_on CHR ''.'' symb = [a, b]"
      by (cases "split_on CHR ''.'' symb"; cases "tl (split_on CHR ''.'' symb)") auto
    from prems(3) have "count_list symb CHR ''.'' \<noteq> 0" by simp
    then have dot: "CHR ''.'' \<in> set symb" by (simp add: count_list_0_iff)
    from ab prems dot show ?thesis by simp
  qed
  done

text \<open>
  Claim C8 fails on the code for an instrument identifier with more than one separator.
  For a new strategy name and a known class, \<^verbatim>\<open>add_strategy\<close> passes the test
  \<^verbatim>\<open>"." not in vt_symbol\<close> and then raises \<^verbatim>\<open>ValueError\<close> when it unpacks the split into
  two names; no log notification is emitted (the state is the one before the call).
\<close>

theorem add_strategy_raises_on_second_separator:
  assumes "name \<notin> dom (strategies e)" and "classes e cname = Some cls"
    and "2 \<le> count_list symb CHR ''.''"
  shows "add_strategy env cname name symb setting e = Inl (ValueError, e)"
proof -
  from assms(3) have "count_list symb CHR ''.'' \<noteq> 0" by simp
  then have dot: "CHR ''.'' \<in> set symb" by (simp add: count_list_0_iff)
  from assms(3) have "3 \<le> length (split_on CHR ''.'' symb)"
    by (simp add: length_split_on)
  then obtain a b c rest where "split_on CHR ''.'' symb = a # b # c # rest"
    by (rule three_parts)
  with assms(1,2) dot show ?thesis by (simp add: add_strategy_def)
qed

theorem add_strategy_raises_on_second_separator_witness:
  "add_strategy demo_env ''Quiet'' ''s2'' ''X.Y.E'' Map.empty engine_s1 = Inl (ValueError, engine_s1)"
proof -
  have a: "''s2'' \<notin> dom (strategies engine_s1)"
    by (simp add: engine_s1_def engine_defs demo_defs dom_def)
  have b: "classes engine_s1 ''Quiet'' = Some ''Quiet''"
    by (simp add: engine_s1_def engine_defs demo_defs)
  have c: "2 \<le> count_list ''X.Y.E'' CHR ''.''" by simp
  from add_strategy_raises_on_second_separator[OF a b c] show ?thesis .
qed

subsection \<open>Faults in \<^verbatim>\<open>on_init\<close> and \<^verbatim>\<open>on_start\<close>\<close>

text \<open>
  Claim C2 fails on the code for the two callbacks named in it.  When \<^verbatim>\<open>on_init\<close> raises,
  the call guard clears both flags and logs the trace, but \<^verbatim>\<open>_init_strategy\<close> goes on and
  sets \<^verbatim>\<open>inited\<close> to true: after the operation the strategy counts as initialised.
\<close>

theorem init_strategy_overrides_call_guard:
  assumes "strategies e name = Some p" and "\<not> inited (heap e p)"
    and "on_init (behaviour env (class_name (heap e p))) p NoParams
           (write_log MSG_INIT_BEGIN [name] None e) = Raised tb e'"
  shows "inited (heap (state_of (init_strategy env name e)) p) \<and>
         EVENT_CTA_LOG \<lparr>log_strategy = Some (strategy_name (heap e' p)),
                         log_msg = MSG_EXCEPTION_STOPPED, log_args = [tb]\<rparr>
           \<in> set (events (state_of (init_strategy env name e)))"
  using assms
  by (simp add: init_strategy_def state_of_def Let_def bound_def call_strategy_func_def
      write_log_def put_event_def put_strategy_event_def set_strategy_def call_main_def
      split: option.splits)

theorem init_strategy_overrides_call_guard_witness:
  "strategies engine_f1 ''f1'' = Some 0 \<and> \<not> inited (heap engine_f1 0) \<and>
   inited (heap (state_of (init_strategy demo_env ''f1'' engine_f1)) 0) \<and>
   EVENT_CTA_LOG \<lparr>log_strategy = Some ''f1'', log_msg = MSG_EXCEPTION_STOPPED,
                   log_args = [''Traceback: on_init'']\<rparr>
     \<in> set (events (state_of (init_strategy demo_env ''f1'' engine_f1)))"
proof -
  have a: "strategies engine_f1 ''f1'' = Some 0"
    by (simp add: engine_f1_def engine_defs demo_defs)
  have b: "\<not> inited (heap engine_f1 0)"
    by (simp add: engine_f1_def engine_defs demo_defs)
  have c: "on_init (behaviour demo_env (class_name (heap engine_f1 0))) 0 NoParams
      (write_log MSG_INIT_BEGIN [''f1''] None engine_f1)
      = Raised ''Traceback: on_init'' (write_log MSG_INIT_BEGIN [''f1''] None engine_f1)"
    by (simp add: engine_f1_def engine_defs demo_defs)
  have d: "strategy_name (heap (write_log MSG_INIT_BEGIN [''f1''] None engine_f1) 0) = ''f1''"
    by (simp add: engine_f1_def engine_defs demo_defs)
  from init_strategy_overrides_call_guard[OF a b c] a b d show ?thesis by simp
qed

text \<open>Likewise \<^verbatim>\<open>start_strategy\<close>: when \<^verbatim>\<open>on_start\<close> raises, the strategy ends up trading
  although the guard has just marked it as not initialised.\<close>

lemma start_strategy_overrides_call_guard:
  assumes "strategies e name = Some p" and "inited (heap e p)" and "\<not> trading (heap e p)"
    and "on_start (behaviour env (class_name (heap e p))) p NoParams e = Raised tb e'"
  shows "trading (heap (state_of (start_strategy env name e)) p) \<and>
         \<not> inited (heap (state_of (start_strategy env name e)) p)"
  using assms
  by (simp add: start_strategy_def state_of_def Let_def bound_def call_strategy_func_def
      write_log_def put_event_def put_strategy_event_def set_strategy_def)

subsection \<open>Sending requests: what changes and what does not\<close>

lemma send_requests_frame:
  "stop_orders (snd (send_requests env p g reqs acc e)) = stop_orders e \<and>
   events (snd (send_requests env p g reqs acc e)) = events e \<and>
   heap (snd (send_requests env p g reqs acc e)) = heap e \<and>
   strategies (snd (send_requests env p g reqs acc e)) = strategies e \<and>
   stop_order_count (snd (send_requests env p g reqs acc e)) = stop_order_count e \<and>
   next_obj (snd (send_requests env p g reqs acc e)) = next_obj e \<and>
   vt_tradeids (snd (send_requests env p g reqs acc e)) = vt_tradeids e \<and>
   symbol_strategy_map (snd (send_requests env p g reqs acc e)) = symbol_strategy_map e"
  by (induction reqs arbitrary: acc e) (simp_all add: Let_def call_main_def add_orderid_def)





lemma send_limit_order_total:
  "\<exists>ids e1. send_limit_order env p (Some c) d off price vol lock net e = Inr (ids, e1)"
  by (simp add: send_limit_order_def send_server_order_def Let_def)


lemma check_one_not_triggered:
  "so_vt_symbol so \<noteq> tick_vt_symbol tick \<or>
   \<not> ((so_direction so = LONG \<and> so_price so \<le> last_price tick) \<or>
       (so_direction so = SHORT \<and> last_price tick \<le> so_price so)) \<Longrightarrow>
   check_one env tick so e = Inr e"
  by (auto simp: check_one_def Let_def)


subsection \<open>Evaluation of stop orders\<close>


















lemma check_each_append:
  "check_each env tick (xs @ ys) e =
     (case check_each env tick xs e of Inl err \<Rightarrow> Inl err | Inr e' \<Rightarrow> check_each env tick ys e')"
  by (induction xs arbitrary: e) (auto split: sum.splits)

text \<open>\<^verbatim>\<open>check_stop_order\<close> applies the loop body \<^verbatim>\<open>check_one\<close> to every entry of the
  registry, in the order of the registry, each in the state the entries before it left
  (unless one of them raised).\<close>

lemma check_stop_order_visits:
  assumes "map snd (stop_orders e) = before @ so # after"
  shows "check_stop_order env tick e =
     (case check_each env tick before e of
        Inl err \<Rightarrow> Inl err
      | Inr e1 \<Rightarrow>
          (case check_one env tick so e1 of
             Inl err \<Rightarrow> Inl err
           | Inr e2 \<Rightarrow> check_each env tick after e2))"
  by (simp add: check_stop_order_def assms check_each_append split: sum.splits)






subsection \<open>Removing a strategy\<close>







subsection \<open>The set of seen trade ids only grows\<close>

lemma tradeids_basic [simp]:
  "vt_tradeids (put_event ev e) = vt_tradeids e"
  "vt_tradeids (write_log m a s e) = vt_tradeids e"
  "vt_tradeids (put_stop_order_event so e) = vt_tradeids e"
  "vt_tradeids (put_strategy_event p e) = vt_tradeids e"
  "vt_tradeids (set_strategy p f e) = vt_tradeids e"
  "vt_tradeids (sync_strategy_data p e) = vt_tradeids e"
  "vt_tradeids (touch_orderids n e) = vt_tradeids e"
  "vt_tradeids (touch_symbol n e) = vt_tradeids e"
  "vt_tradeids (add_orderid n i e) = vt_tradeids e"
  "vt_tradeids (discard_orderid n i e) = vt_tradeids e"
  "vt_tradeids (call_main c e) = vt_tradeids e"
  "vt_tradeids (remove_strategy_setting n e) = vt_tradeids e"
  "vt_tradeids (cancel_server_order env p i e) = vt_tradeids e"
  by (simp_all add: put_event_def write_log_def put_stop_order_event_def put_strategy_event_def
      set_strategy_def sync_strategy_data_def touch_orderids_def touch_symbol_def add_orderid_def
      discard_orderid_def call_main_def remove_strategy_setting_def cancel_server_order_def
      Let_def split: option.splits)

lemma tradeids_guard:
  assumes "every_callback env keeps_tradeids" and "x \<in> vt_tradeids e"
  shows "x \<in> vt_tradeids (call_strategy_func p (bound env on_init q e0) prm e)"
    "x \<in> vt_tradeids (call_strategy_func p (bound env on_start q e0) prm e)"
    "x \<in> vt_tradeids (call_strategy_func p (bound env on_stop q e0) prm e)"
    "x \<in> vt_tradeids (call_strategy_func p (bound env on_tick q e0) prm e)"
    "x \<in> vt_tradeids (call_strategy_func p (bound env on_order q e0) prm e)"
    "x \<in> vt_tradeids (call_strategy_func p (bound env on_trade q e0) prm e)"
    "x \<in> vt_tradeids (call_strategy_func p (bound env on_stop_order q e0) prm e)"
  using vt_tradeids_call_strategy_func[of _ e p prm] bound_callback[OF assms(1), of q e0] assms(2)
  by blast+

lemma tradeids_send_server_order:
  "vt_tradeids (exec_state (send_server_order env p c d off pr vol ty lock net e)) = vt_tradeids e"
  by (cases c) (simp_all add: send_server_order_def exec_state_def Let_def split_beta
      send_requests_frame)

lemma tradeids_send_order:
  assumes "every_callback env keeps_tradeids" and "x \<in> vt_tradeids e"
  shows "x \<in> vt_tradeids (exec_state (send_order env p d off pr vol stop lock net e))"
proof (cases "get_contract env e (vt_symbol (heap e p))")
  case None
  with assms show ?thesis by (simp add: send_order_def exec_state_def)
next
  case (Some c)
  show ?thesis
  proof (cases "stop \<and> \<not> contract_stop_supported c")
    case True
    with Some assms show ?thesis
      by (auto simp: send_order_def exec_state_def send_local_stop_order_def Let_def
          intro!: tradeids_guard)
  next
    case False
    with Some assms tradeids_send_server_order[of env p "Some c" d off _ _ _ lock net e]
    show ?thesis
      by (auto simp: send_order_def send_limit_order_def send_server_stop_order_def Let_def)
  qed
qed

lemma tradeids_cancel_order:
  assumes "every_callback env keeps_tradeids" and "x \<in> vt_tradeids e"
  shows "x \<in> vt_tradeids (state_of (cancel_order env p i e))"
  using assms
  by (auto simp: cancel_order_def cancel_local_stop_order_def state_of_def Let_def
      split: option.splits intro!: tradeids_guard)

lemma tradeids_cancel_each:
  assumes "every_callback env keeps_tradeids"
  shows "x \<in> vt_tradeids e \<Longrightarrow> x \<in> vt_tradeids (state_of (cancel_each env p ids e))"
proof (induction ids arbitrary: e)
  case Nil
  then show ?case by (simp add: state_of_def)
next
  case (Cons i ids)
  from tradeids_cancel_order[OF assms Cons.prems, of p i]
  have "x \<in> vt_tradeids (state_of (cancel_order env p i e))" .
  then show ?case
    using Cons.IH by (cases "cancel_order env p i e") (auto simp: state_of_def)
qed

lemma tradeids_cancel_all:
  assumes "every_callback env keeps_tradeids" and "x \<in> vt_tradeids e"
  shows "x \<in> vt_tradeids (state_of (cancel_all env p e))"
  using assms tradeids_cancel_each[OF assms(1), of x "touch_orderids (strategy_name (heap e p)) e"]
  by (auto simp: cancel_all_def Let_def state_of_def)

lemma check_one_cases [consumes 0, case_names skip no_strategy no_contract failed gone fired]:
  obtains "check_one env tick so e = Inr e"
  | "check_one env tick so e = Inl (KeyError, e)"
  | "check_one env tick so e = Inl (AttributeError, e)"
  | p c e1 where "strategies e (so_strategy_name so) = Some p"
      "get_contract env e (so_vt_symbol so) = Some c"
      "send_limit_order env p (Some c) (so_direction so) (so_offset so) (trigger_price tick so)
         (so_volume so) (so_lock so) (so_net so) e = Inr ([], e1)"
      "check_one env tick so e = Inr e1"
  | p c ids e1 where "strategies e (so_strategy_name so) = Some p"
      "get_contract env e (so_vt_symbol so) = Some c"
      "send_limit_order env p (Some c) (so_direction so) (so_offset so) (trigger_price tick so)
         (so_volume so) (so_lock so) (so_net so) e = Inr (ids, e1)"
      "ids \<noteq> []" "stop_orderid so \<notin> fst ` set (stop_orders e1)"
      "check_one env tick so e = Inl (KeyError, e1)"
  | p c ids e1 where "strategies e (so_strategy_name so) = Some p"
      "get_contract env e (so_vt_symbol so) = Some c"
      "send_limit_order env p (Some c) (so_direction so) (so_offset so) (trigger_price tick so)
         (so_volume so) (so_lock so) (so_net so) e = Inr (ids, e1)"
      "ids \<noteq> []" "stop_orderid so \<in> fst ` set (stop_orders e1)"
      "check_one env tick so e =
         Inr (put_stop_order_event (so\<lparr>so_status := TRIGGERED, so_vt_orderids := ids\<rparr>)
           (call_strategy_func p
              (bound env on_stop_order p
                 (discard_orderid (strategy_name (heap e1 p)) (stop_orderid so)
                    (e1\<lparr>stop_orders := AList.delete (stop_orderid so) (stop_orders e1)\<rparr>)))
              (StopOrderParams (so\<lparr>so_status := TRIGGERED, so_vt_orderids := ids\<rparr>))
              (discard_orderid (strategy_name (heap e1 p)) (stop_orderid so)
                 (e1\<lparr>stop_orders := AList.delete (stop_orderid so) (stop_orders e1)\<rparr>))))"
proof (cases "so_vt_symbol so \<noteq> tick_vt_symbol tick \<or>
   \<not> ((so_direction so = LONG \<and> so_price so \<le> last_price tick) \<or>
       (so_direction so = SHORT \<and> last_price tick \<le> so_price so))")
  case True
  then have "check_one env tick so e = Inr e" by (rule check_one_not_triggered)
  then show ?thesis by (rule that(1))
next
  case trig: False
  show ?thesis
  proof (cases "strategies e (so_strategy_name so)")
    case None
    with trig have "check_one env tick so e = Inl (KeyError, e)"
      by (auto simp: check_one_def Let_def)
    then show ?thesis by (rule that(2))
  next
    case (Some p)
    show ?thesis
    proof (cases "get_contract env e (so_vt_symbol so)")
      case None
      with trig Some have "check_one env tick so e = Inl (AttributeError, e)"
        by (auto simp: check_one_def Let_def send_limit_order_def send_server_order_def)
      then show ?thesis by (rule that(3))
    next
      case c: (Some c)
      obtain ids e1 where route: "send_limit_order env p (Some c) (so_direction so) (so_offset so)
          (trigger_price tick so) (so_volume so) (so_lock so) (so_net so) e = Inr (ids, e1)"
        using send_limit_order_total by blast
      show ?thesis
      proof (cases "ids = []")
        case True
        with trig Some c route have "check_one env tick so e = Inr e1"
          by (auto simp: check_one_def Let_def)
        with Some c route True show ?thesis by (intro that(4)) auto
      next
        case False
        show ?thesis
        proof (cases "stop_orderid so \<in> fst ` set (stop_orders e1)")
          case gone: False
          with trig Some c route \<open>ids \<noteq> []\<close> have "check_one env tick so e = Inl (KeyError, e1)"
            by (auto simp: check_one_def Let_def)
          with Some c route False gone show ?thesis by (intro that(5)) auto
        next
          case True
          with trig Some c route \<open>ids \<noteq> []\<close> have "check_one env tick so e =
         Inr (put_stop_order_event (so\<lparr>so_status := TRIGGERED, so_vt_orderids := ids\<rparr>)
           (call_strategy_func p
              (bound env on_stop_order p
                 (discard_orderid (strategy_name (heap e1 p)) (stop_orderid so)
                    (e1\<lparr>stop_orders := AList.delete (stop_orderid so) (stop_orders e1)\<rparr>)))
              (StopOrderParams (so\<lparr>so_status := TRIGGERED, so_vt_orderids := ids\<rparr>))
              (discard_orderid (strategy_name (heap e1 p)) (stop_orderid so)
                 (e1\<lparr>stop_orders := AList.delete (stop_orderid so) (stop_orders e1)\<rparr>))))"
            by (auto simp: check_one_def Let_def)
          with Some c route False True show ?thesis by (intro that(6)) auto
        qed
      qed
    qed
  qed
qed

lemma tradeids_send_limit_order:
  "send_limit_order env p c d off pr vol lock net e = Inr (ids, e1) \<Longrightarrow> vt_tradeids e1 = vt_tradeids e"
  using tradeids_send_server_order[of env p c d off pr vol LIMIT lock net e]
  by (simp add: send_limit_order_def exec_state_def)

lemma tradeids_check_one:
  assumes "every_callback env keeps_tradeids" and "x \<in> vt_tradeids e"
  shows "x \<in> vt_tradeids (state_of (check_one env tick so e))"
proof (cases rule: check_one_cases[of env tick so e])
  case skip
  with assms show ?thesis by (simp add: state_of_def)
next
  case no_strategy
  with assms show ?thesis by (simp add: state_of_def)
next
  case no_contract
  with assms show ?thesis by (simp add: state_of_def)
next
  case (failed p c e1)
  with assms tradeids_send_limit_order[OF failed(3)] show ?thesis by (simp add: state_of_def)
next
  case (gone p c ids e1)
  with assms tradeids_send_limit_order[OF gone(3)] show ?thesis by (simp add: state_of_def)
next
  case (fired p c ids e1)
  with assms tradeids_send_limit_order[OF fired(3)] show ?thesis
    by (simp add: state_of_def tradeids_guard)
qed

lemma tradeids_check_each:
  assumes "every_callback env keeps_tradeids"
  shows "x \<in> vt_tradeids e \<Longrightarrow> x \<in> vt_tradeids (state_of (check_each env tick sos e))"
proof (induction sos arbitrary: e)
  case Nil
  then show ?case by (simp add: state_of_def)
next
  case (Cons so sos)
  from tradeids_check_one[OF assms Cons.prems, of tick so]
  have "x \<in> vt_tradeids (state_of (check_one env tick so e))" .
  then show ?case
    using Cons.IH by (cases "check_one env tick so e") (auto simp: state_of_def)
qed

lemma tradeids_tick_each:
  assumes "every_callback env keeps_tradeids"
  shows "x \<in> vt_tradeids e \<Longrightarrow> x \<in> vt_tradeids (tick_each env tick ps e)"
  by (induction ps arbitrary: e) (simp_all add: tradeids_guard[OF assms])

lemma tradeids_process_tick_event:
  assumes "every_callback env keeps_tradeids" and "x \<in> vt_tradeids e"
  shows "x \<in> vt_tradeids (state_of (process_tick_event env tick e))"
proof -
  let ?e0 = "touch_symbol (tick_vt_symbol tick) e"
  from assms(2) have x0: "x \<in> vt_tradeids ?e0" by simp
  from tradeids_check_each[OF assms(1) x0, of tick "map snd (stop_orders ?e0)"]
  have c: "x \<in> vt_tradeids (state_of (check_stop_order env tick ?e0))"
    by (simp add: check_stop_order_def)
  show ?thesis
  proof (cases "check_stop_order env tick ?e0")
    case (Inl err)
    with c x0 show ?thesis by (auto simp: process_tick_event_def Let_def state_of_def)
  next
    case (Inr e1)
    with c have "x \<in> vt_tradeids e1" by (simp add: state_of_def)
    from tradeids_tick_each[OF assms(1) this] Inr x0 show ?thesis
      by (auto simp: process_tick_event_def Let_def state_of_def)
  qed
qed

lemma tradeids_process_order_event:
  assumes "every_callback env keeps_tradeids" and "x \<in> vt_tradeids e"
  shows "x \<in> vt_tradeids (process_order_event env order e)"
  using assms
  by (simp add: process_order_event_def Let_def tradeids_guard split: option.splits)

lemma tradeids_process_trade_event:
  assumes "every_callback env keeps_tradeids" and "x \<in> vt_tradeids e"
  shows "x \<in> vt_tradeids (process_trade_event env trade e)"
  using assms
  by (simp add: process_trade_event_def Let_def tradeids_guard split: option.splits)

lemma tradeids_add_strategy:
  "vt_tradeids (state_of (add_strategy env cname name symb setting e)) = vt_tradeids e"
  by (auto simp: add_strategy_def state_of_def update_strategy_setting_def Let_def
      split: option.splits list.splits)

lemma tradeids_init_strategy:
  assumes "every_callback env keeps_tradeids" and "x \<in> vt_tradeids e"
  shows "x \<in> vt_tradeids (state_of (init_strategy env name e))"
  using assms
  by (simp add: init_strategy_def Let_def state_of_def tradeids_guard split: option.splits)

lemma tradeids_start_strategy:
  assumes "every_callback env keeps_tradeids" and "x \<in> vt_tradeids e"
  shows "x \<in> vt_tradeids (state_of (start_strategy env name e))"
  using assms
  by (simp add: start_strategy_def Let_def state_of_def tradeids_guard split: option.splits)

lemma tradeids_stop_strategy:
  assumes "every_callback env keeps_tradeids" and "x \<in> vt_tradeids e"
  shows "x \<in> vt_tradeids (state_of (stop_strategy env name e))"
proof (cases "strategies e name")
  case None
  with assms show ?thesis by (simp add: stop_strategy_def state_of_def)
next
  case (Some p)
  let ?e2 = "set_strategy p (\<lambda>s. s\<lparr>trading := False\<rparr>)
     (call_strategy_func p (bound env on_stop p e) NoParams e)"
  from assms have "x \<in> vt_tradeids ?e2" by (simp add: tradeids_guard)
  from tradeids_cancel_all[OF assms(1) this, of p] Some assms(2) show ?thesis
    by (cases "cancel_all env p ?e2") (auto simp: stop_strategy_def Let_def state_of_def)
qed

lemma tradeids_remove_strategy:
  "vt_tradeids (exec_state (remove_strategy env name e)) = vt_tradeids e"
  by (auto simp: remove_strategy_def exec_state_def Let_def split: option.splits)

lemma tradeids_engine_step:
  assumes "every_callback env keeps_tradeids" and "engine_step env e e'"
  shows "vt_tradeids e \<subseteq> vt_tradeids e'"
  using assms(2)
proof cases
  case (tick_step tick)
  then show ?thesis using tradeids_process_tick_event[OF assms(1)] by blast
next
  case (order_step order)
  then show ?thesis using tradeids_process_order_event[OF assms(1)] by blast
next
  case (trade_step trade)
  then show ?thesis using tradeids_process_trade_event[OF assms(1)] by blast
next
  case (send_step p direction offset price volume stop lock net)
  then show ?thesis using tradeids_send_order[OF assms(1)] by blast
next
  case (cancel_step p vt_orderid)
  then show ?thesis using tradeids_cancel_order[OF assms(1)] by blast
next
  case (cancel_all_step p)
  then show ?thesis using tradeids_cancel_all[OF assms(1)] by blast
next
  case (add_step cname name symb setting)
  then show ?thesis using tradeids_add_strategy by blast
next
  case (init_step name)
  then show ?thesis using tradeids_init_strategy[OF assms(1)] by blast
next
  case (start_step name)
  then show ?thesis using tradeids_start_strategy[OF assms(1)] by blast
next
  case (stop_step name)
  then show ?thesis using tradeids_stop_strategy[OF assms(1)] by blast
next
  case (remove_step name)
  then show ?thesis using tradeids_remove_strategy by blast
qed

lemma tradeids_engine_steps:
  assumes "every_callback env keeps_tradeids" and "(engine_step env)\<^sup>*\<^sup>* e e'"
  shows "vt_tradeids e \<subseteq> vt_tradeids e'"
  using assms(2)
  by (induction rule: rtranclp_induct) (auto dest: tradeids_engine_step[OF assms(1)])

subsection \<open>Trades that resolve to no strategy\<close>

text \<open>
  Claim C10.  A trade whose order id is attributed to no strategy is still recorded: when
  its trade id is new, processing it adds the id to the set of seen ids and changes nothing
  else.  The id then stays in the set through every later operation of the engine
  (callbacks being assumed never to take ids out of the set), so any later trade event
  carrying that trade id is discarded with the state left exactly as it was, no position
  changed and no callback run, whatever the order-id-to-strategy map holds by then.
\<close>

theorem unattributed_trade_stays_recorded:
  assumes cb: "every_callback env keeps_tradeids"
    and unresolved: "orderid_strategy_map e (trade_vt_orderid trade) = None"
    and later: "(engine_step env)\<^sup>*\<^sup>* (process_trade_event env trade e) e'"
    and same: "trade_vt_tradeid trade' = trade_vt_tradeid trade"
  shows "(trade_vt_tradeid trade \<notin> vt_tradeids e \<longrightarrow>
            process_trade_event env trade e
              = e\<lparr>vt_tradeids := insert (trade_vt_tradeid trade) (vt_tradeids e)\<rparr>) \<and>
         trade_vt_tradeid trade \<in> vt_tradeids e' \<and>
         process_trade_event env trade' e' = e'"
proof -
  have first: "trade_vt_tradeid trade \<notin> vt_tradeids e \<longrightarrow>
      process_trade_event env trade e
        = e\<lparr>vt_tradeids := insert (trade_vt_tradeid trade) (vt_tradeids e)\<rparr>"
    using unresolved by (simp add: process_trade_event_def)
  have "trade_vt_tradeid trade \<in> vt_tradeids (process_trade_event env trade e)"
    using unresolved by (simp add: process_trade_event_def)
  with tradeids_engine_steps[OF cb later]
  have kept: "trade_vt_tradeid trade \<in> vt_tradeids e'" by blast
  with same have "process_trade_event env trade' e' = e'"
    by (simp add: process_trade_event_def)
  with first kept show ?thesis by simp
qed

lemma demo_env_every_keeps_tradeids: "every_callback demo_env keeps_tradeids"
  by (simp add: every_callback_def keeps_tradeids_def cb_state_def demo_defs)

lemma engine_s1_unattributed: "orderid_strategy_map engine_s1 ''G.1'' = None"
  by (simp add: engine_s1_def engine_defs demo_defs)

lemma engine_s1_next_obj: "next_obj engine_s1 = 1"
  by (simp add: engine_s1_def engine_defs demo_defs)

lemma engine_s1_late_order_eval:
  "orderid_strategy_map engine_s1_late_order ''G.1'' = Some 0"
  "pos (heap engine_s1_late_order 0) = 0"
  by (simp_all add: engine_s1_late_order_def engine_s1_early_trade_def process_trade_event_def
      engine_s1_def engine_defs demo_defs)

theorem unattributed_trade_stays_recorded_witness:
  "orderid_strategy_map engine_s1 (trade_vt_orderid trade_T1) = None \<and>
   orderid_strategy_map engine_s1_late_order (trade_vt_orderid trade_T1) = Some 0 \<and>
   trade_vt_tradeid trade_T1 \<in> vt_tradeids engine_s1_late_order \<and>
   process_trade_event demo_env trade_T1 engine_s1_late_order = engine_s1_late_order \<and>
   pos (heap engine_s1_late_order 0) = 0"
proof -
  have unresolved: "orderid_strategy_map engine_s1 (trade_vt_orderid trade_T1) = None"
    by (simp add: trade_T1_def engine_s1_unattributed)
  have "0 < next_obj engine_s1_early_trade"
    by (simp add: engine_s1_early_trade_def process_trade_event_def engine_s1_unattributed
        engine_s1_next_obj trade_T1_def)
  then have "engine_step demo_env engine_s1_early_trade engine_s1_late_order"
    unfolding engine_s1_late_order_def by (rule send_step)
  then have later: "(engine_step demo_env)\<^sup>*\<^sup>*
      (process_trade_event demo_env trade_T1 engine_s1) engine_s1_late_order"
    unfolding engine_s1_early_trade_def by (rule r_into_rtranclp)
  from unattributed_trade_stays_recorded[OF demo_env_every_keeps_tradeids unresolved later refl]
    unresolved engine_s1_late_order_eval
  show ?thesis by (simp add: trade_T1_def)
qed

subsection \<open>Stop-order ids are distinct\<close>






subsection \<open>The invariant: elementary steps\<close>










lemma orderids_of_touch [simp]: "orderids_of (touch_orderids n e) m = orderids_of e m"
  by (auto simp: orderids_of_def touch_orderids_def split: option.splits)









subsection \<open>The invariant: sending server orders\<close>








subsection \<open>The invariant: local stop orders and cancelling\<close>











subsection \<open>The invariant: stop-order evaluation and ticks\<close>









subsection \<open>The invariant: events, lifecycle and reachable states\<close>













subsection \<open>The two order-id maps in reachable states\<close>

















end
